theory Spec2Isabelle
  imports Main "HOL-Library.Word"
begin

unbundle bit_operations_syntax

section \<open>The samd21 PORT register block\<close>

text \<open>
  The GPIO driver \<^verbatim>\<open>src/samd21/gpio.c\<close> works on the memory-mapped PORT peripheral.

  Modelled from the spec: the type \<^verbatim>\<open>PortGroup\<close> is declared in the vendor header
  \<^verbatim>\<open>samd21.h\<close>, which is not under src/. \<^verbatim>\<open>PORT->Group[i]\<close> is one bank of 32 pins with
  the data registers DIR, OUT and IN, the write-only strobe registers DIRCLR, DIRSET,
  OUTCLR, OUTSET and OUTTGL, sixteen PMUX bytes (two pins each) and thirty-two PINCFG
  bytes (one per pin); only the registers the driver touches are kept.
\<close>

type_synonym u8 = "8 word"
type_synonym u32 = "32 word"

record PortGroup =
  DIR :: u32
  OUT :: u32
  IN :: u32
  PMUX :: "u8 list"
  PINCFG :: "u8 list"

datatype strobe = DIRCLR | DIRSET | OUTCLR | OUTSET | OUTTGL

text \<open>
  Modelled from the spec: the vendor header \<^verbatim>\<open>samd21.h\<close> and the PORT hardware are not
  under src/. A write of \<open>v\<close> to a strobe register sets (DIRSET, OUTSET), clears (DIRCLR,
  OUTCLR) or toggles (OUTTGL) those bits of DIR or OUT that are 1 in \<open>v\<close>; this is how the
  spec's "pin set/clear/toggle" reaches the pin.
\<close>

fun strobe_write :: "strobe \<Rightarrow> u32 \<Rightarrow> PortGroup \<Rightarrow> PortGroup" where
  "strobe_write DIRCLR v pg = pg\<lparr>DIR := DIR pg AND NOT v\<rparr>"
| "strobe_write DIRSET v pg = pg\<lparr>DIR := DIR pg OR v\<rparr>"
| "strobe_write OUTCLR v pg = pg\<lparr>OUT := OUT pg AND NOT v\<rparr>"
| "strobe_write OUTSET v pg = pg\<lparr>OUT := OUT pg OR v\<rparr>"
| "strobe_write OUTTGL v pg = pg\<lparr>OUT := OUT pg XOR v\<rparr>"

text \<open>
  Modelled from the spec: the bit masks \<^verbatim>\<open>PORT_PINCFG_PMUXEN\<close> and
  \<^verbatim>\<open>PORT_PINCFG_PULLEN\<close> of the vendor header \<^verbatim>\<open>samd21.h\<close> (not under src/):
  bit 0 and bit 2 of a PINCFG byte.
\<close>

definition PORT_PINCFG_PMUXEN :: u8 where
  "PORT_PINCFG_PMUXEN = 0x1"

definition PORT_PINCFG_PULLEN :: u8 where
  "PORT_PINCFG_PULLEN = 0x4"

section \<open>Machine state, events and outcomes\<close>

text \<open>
  Every register access and every call of \<^verbatim>\<open>irq_save\<close>/\<^verbatim>\<open>irq_restore\<close> is an event.
  The trace keeps each event together with the interrupt-enable flag that held when the
  event happened, so that the order of the accesses and the masking of interrupts around
  them can be read off the final state.
\<close>

datatype event =
    Irq_save
  | Irq_restore
  | Write_strobe int strobe u32
  | Read_PMUX int int
  | Write_PMUX int int u8
  | Write_PINCFG int int u8
  | Read_IN int

record mcu =
  PORT :: "PortGroup list"
  irq_on :: bool
  trace :: "(bool \<times> event) list"

text \<open>
  A C array access outside the array is undefined behaviour. The model stops there with
  the outcome \<open>Undefined\<close>, naming the array and the index. \<open>Shutdown\<close> is the call of
  \<^verbatim>\<open>shutdown(msg)\<close>, which does not return; it carries the machine state at the call.
  \<open>Returns\<close> is the normal return, with the value and the machine state.
\<close>

datatype access = Group_index int | PMUX_index int | PINCFG_index int

datatype 'a outcome =
    Returns 'a mcu
  | Shutdown string mcu
  | Undefined access

type_synonym 'a hw = "mcu \<Rightarrow> 'a outcome"

definition return_hw :: "'a \<Rightarrow> 'a hw" where
  "return_hw x s = Returns x s"

definition bind_hw :: "'a hw \<Rightarrow> ('a \<Rightarrow> 'b hw) \<Rightarrow> 'b hw" where
  "bind_hw m f s =
     (case m s of
        Returns x s' \<Rightarrow> f x s'
      | Shutdown msg s' \<Rightarrow> Shutdown msg s'
      | Undefined a \<Rightarrow> Undefined a)"

text \<open>
  Modelled from the spec: \<^verbatim>\<open>shutdown\<close> of \<^verbatim>\<open>command.h\<close> (not under src/) is the fatal
  shutdown path; control does not come back to the caller.
\<close>

definition shutdown :: "string \<Rightarrow> 'a hw" where
  "shutdown msg s = Shutdown msg s"

definition log :: "event \<Rightarrow> mcu \<Rightarrow> mcu" where
  "log e s = s\<lparr>trace := trace s @ [(irq_on s, e)]\<rparr>"

definition in_range :: "int \<Rightarrow> 'a list \<Rightarrow> bool" where
  "in_range i xs \<longleftrightarrow> 0 \<le> i \<and> i < int (length xs)"

text \<open>\<^verbatim>\<open>PORT->Group[grp]\<close>: the register bank a pointer \<^verbatim>\<open>PortGroup *pg\<close> stands for.\<close>

definition Group :: "int \<Rightarrow> PortGroup hw" where
  "Group grp s =
     (if in_range grp (PORT s) then Returns (PORT s ! nat grp) s
      else Undefined (Group_index grp))"

definition set_Group :: "int \<Rightarrow> PortGroup \<Rightarrow> mcu \<Rightarrow> mcu" where
  "set_Group grp pg s = s\<lparr>PORT := (PORT s)[nat grp := pg]\<rparr>"

text \<open>\<^verbatim>\<open>pg->OUTSET.reg = v\<close> and its siblings.\<close>

definition write_strobe :: "int \<Rightarrow> strobe \<Rightarrow> u32 \<Rightarrow> unit hw" where
  "write_strobe grp r v =
     bind_hw (Group grp) (\<lambda>pg s.
       Returns () (set_Group grp (strobe_write r v pg) (log (Write_strobe grp r v) s)))"

text \<open>\<^verbatim>\<open>pg->IN.reg\<close>.\<close>

definition read_IN :: "int \<Rightarrow> u32 hw" where
  "read_IN grp =
     bind_hw (Group grp) (\<lambda>pg s. Returns (IN pg) (log (Read_IN grp) s))"

text \<open>\<^verbatim>\<open>pg->PMUX[i].reg\<close>, read and written.\<close>

definition read_PMUX :: "int \<Rightarrow> int \<Rightarrow> u8 hw" where
  "read_PMUX grp i =
     bind_hw (Group grp) (\<lambda>pg s.
       if in_range i (PMUX pg) then Returns (PMUX pg ! nat i) (log (Read_PMUX grp i) s)
       else Undefined (PMUX_index i))"

definition write_PMUX :: "int \<Rightarrow> int \<Rightarrow> u8 \<Rightarrow> unit hw" where
  "write_PMUX grp i v =
     bind_hw (Group grp) (\<lambda>pg s.
       if in_range i (PMUX pg)
       then Returns () (set_Group grp (pg\<lparr>PMUX := (PMUX pg)[nat i := v]\<rparr>)
                          (log (Write_PMUX grp i v) s))
       else Undefined (PMUX_index i))"

text \<open>\<^verbatim>\<open>pg->PINCFG[i].reg = v\<close>.\<close>

definition write_PINCFG :: "int \<Rightarrow> int \<Rightarrow> u8 \<Rightarrow> unit hw" where
  "write_PINCFG grp i v =
     bind_hw (Group grp) (\<lambda>pg s.
       if in_range i (PINCFG pg)
       then Returns () (set_Group grp (pg\<lparr>PINCFG := (PINCFG pg)[nat i := v]\<rparr>)
                          (log (Write_PINCFG grp i v) s))
       else Undefined (PINCFG_index i))"

text \<open>
  Modelled from the spec: \<^verbatim>\<open>irq_save\<close> and \<^verbatim>\<open>irq_restore\<close> of \<^verbatim>\<open>board/irq.h\<close> (not
  under src/). \<^verbatim>\<open>irq_save\<close> disables interrupts and returns the interrupt state it found;
  \<^verbatim>\<open>irq_restore\<close> puts that state back.
\<close>

definition irq_save :: "bool hw" where
  "irq_save s = Returns (irq_on s) ((log Irq_save s)\<lparr>irq_on := False\<rparr>)"

definition irq_restore :: "bool \<Rightarrow> unit hw" where
  "irq_restore flag s = Returns () ((log Irq_restore s)\<lparr>irq_on := flag\<rparr>)"

text \<open>
  Modelled from the spec: \<^verbatim>\<open>ffs\<close> of the C library (\<^verbatim>\<open>string.h\<close>, not under src/): one
  plus the index of the least significant 1 bit, and 0 when there is none.
\<close>

definition ffs :: "u32 \<Rightarrow> int" where
  "ffs w = (case find (\<lambda>n. bit w n) [0..<32] of None \<Rightarrow> 0 | Some n \<Rightarrow> int n + 1)"

section \<open>Pin multiplexing\<close>

text \<open>
  \<^verbatim>\<open>gpio_peripheral(char bank, uint32_t bit, char ptype, uint32_t pull_up)\<close>. The
  characters are bytes (\<^verbatim>\<open>'A'\<close> is 0x41); the stores to the \<^verbatim>\<open>uint8_t\<close> registers
  truncate to eight bits, so the arithmetic is that of \<open>u8\<close>. The source's \<^verbatim>\<open>bit\<close> and
  \<^verbatim>\<open>group\<close> are \<open>bit_no\<close> and \<open>grp\<close> here.
\<close>

definition gpio_peripheral :: "u8 \<Rightarrow> u32 \<Rightarrow> u8 \<Rightarrow> u32 \<Rightarrow> unit hw" where
  "gpio_peripheral bank bit_no ptype pull_up =
     (let grp = (if bank = 0x41 then 0 else 1) in
      bind_hw
        (if ptype \<noteq> 0 then
           bind_hw (read_PMUX grp (uint (bit_no div 2))) (\<lambda>pmux.
             let shift = (if bit_no AND 1 \<noteq> 0 then 4 else 0);
                 mask = NOT (push_bit shift 0xf)
             in write_PMUX grp (uint (bit_no div 2))
                  ((pmux AND mask) OR push_bit shift (ptype - 0x41)))
         else return_hw ())
        (\<lambda>_. write_PINCFG grp (uint bit_no)
                ((if ptype \<noteq> 0 then PORT_PINCFG_PMUXEN else 0)
                 OR (if pull_up \<noteq> 0 then PORT_PINCFG_PULLEN else 0))))"

section \<open>General purpose input and output pins\<close>

text \<open>
  \<^verbatim>\<open>GPIO2PORT(PIN)\<close> is \<^verbatim>\<open>PIN / 32\<close> and \<^verbatim>\<open>GPIO2BIT(PIN)\<close> is \<^verbatim>\<open>1 << (PIN % 32)\<close>, on
  a \<^verbatim>\<open>uint8_t\<close> pin promoted to \<^verbatim>\<open>int\<close>; the mask is stored in a \<^verbatim>\<open>uint32_t\<close> field.
\<close>

definition GPIO2PORT :: "u8 \<Rightarrow> int" where
  "GPIO2PORT pin = uint pin div 32"

definition GPIO2BIT :: "u8 \<Rightarrow> u32" where
  "GPIO2BIT pin = push_bit (unat pin mod 32) 1"

definition NUM_PORT :: int where
  "NUM_PORT = 2"

text \<open>
  Modelled from the spec: \<^verbatim>\<open>struct gpio_out\<close> and \<^verbatim>\<open>struct gpio_in\<close> are declared in
  \<^verbatim>\<open>gpio.h\<close>, which is not under src/. Their fields are the two the driver initialises:
  the register bank (the pointer \<^verbatim>\<open>regs\<close>, here the index of the bank in
  \<^verbatim>\<open>PORT->Group\<close>) and the pin's bit mask \<^verbatim>\<open>bit\<close>, a \<^verbatim>\<open>uint32_t\<close>.
\<close>

record gpio_out =
  out_regs :: int
  out_bit :: u32

record gpio_in =
  in_regs :: int
  in_bit :: u32

definition set_pincfg :: "int \<Rightarrow> u32 \<Rightarrow> u8 \<Rightarrow> unit hw" where
  "set_pincfg pg bit_mask cfg = write_PINCFG pg (ffs bit_mask - 1) cfg"

definition gpio_out_reset :: "gpio_out \<Rightarrow> u8 \<Rightarrow> unit hw" where
  "gpio_out_reset g val =
     (let pg = out_regs g in
      bind_hw irq_save (\<lambda>flag.
      bind_hw (if val \<noteq> 0 then write_strobe pg OUTSET (out_bit g)
               else write_strobe pg OUTCLR (out_bit g)) (\<lambda>_.
      bind_hw (write_strobe pg DIRSET (out_bit g)) (\<lambda>_.
      bind_hw (set_pincfg pg (out_bit g) 0) (\<lambda>_.
      irq_restore flag)))))"

definition gpio_out_setup :: "u8 \<Rightarrow> u8 \<Rightarrow> gpio_out hw" where
  "gpio_out_setup pin val =
     (if GPIO2PORT pin \<ge> NUM_PORT then shutdown ''Not an output pin''
      else
        let pg = GPIO2PORT pin;
            g = \<lparr>out_regs = pg, out_bit = GPIO2BIT pin\<rparr>
        in bind_hw (gpio_out_reset g val) (\<lambda>_. return_hw g))"

definition gpio_out_toggle_noirq :: "gpio_out \<Rightarrow> unit hw" where
  "gpio_out_toggle_noirq g = write_strobe (out_regs g) OUTTGL (out_bit g)"

definition gpio_out_toggle :: "gpio_out \<Rightarrow> unit hw" where
  "gpio_out_toggle g = gpio_out_toggle_noirq g"

definition gpio_out_write :: "gpio_out \<Rightarrow> u8 \<Rightarrow> unit hw" where
  "gpio_out_write g val =
     (let pg = out_regs g in
      if val \<noteq> 0 then write_strobe pg OUTSET (out_bit g)
      else write_strobe pg OUTCLR (out_bit g))"

definition gpio_in_reset :: "gpio_in \<Rightarrow> u8 \<Rightarrow> unit hw" where
  "gpio_in_reset g pull_up =
     (let pg = in_regs g in
      bind_hw irq_save (\<lambda>flag.
      bind_hw (set_pincfg pg (in_bit g) (if 0 <s pull_up then PORT_PINCFG_PULLEN else 0)) (\<lambda>_.
      bind_hw (write_strobe pg DIRCLR (in_bit g)) (\<lambda>_.
      irq_restore flag))))"

definition gpio_in_setup :: "u8 \<Rightarrow> u8 \<Rightarrow> gpio_in hw" where
  "gpio_in_setup pin pull_up =
     (if GPIO2PORT pin \<ge> NUM_PORT then shutdown ''Not an input pin''
      else
        let pg = GPIO2PORT pin;
            g = \<lparr>in_regs = pg, in_bit = GPIO2BIT pin\<rparr>
        in bind_hw (gpio_in_reset g pull_up) (\<lambda>_. return_hw g))"

definition gpio_in_read :: "gpio_in \<Rightarrow> u8 hw" where
  "gpio_in_read g =
     bind_hw (read_IN (in_regs g)) (\<lambda>v.
       return_hw (if v AND in_bit g \<noteq> 0 then 1 else 0))"

section \<open>Well-formed machine states\<close>

text \<open>
  Modelled from the spec: the sizes of the arrays of the register block, declared in
  \<^verbatim>\<open>samd21.h\<close> (not under src/): \<^verbatim>\<open>Group[2]\<close>, \<^verbatim>\<open>PMUX[16]\<close> and \<^verbatim>\<open>PINCFG[32]\<close>.
\<close>

definition wf_PortGroup :: "PortGroup \<Rightarrow> bool" where
  "wf_PortGroup pg \<longleftrightarrow> length (PMUX pg) = 16 \<and> length (PINCFG pg) = 32"

definition wf_mcu :: "mcu \<Rightarrow> bool" where
  "wf_mcu s \<longleftrightarrow> length (PORT s) = 2 \<and> list_all wf_PortGroup (PORT s)"

text \<open>The register block after a reset of the chip, interrupts enabled, nothing done yet.\<close>

definition reset_PortGroup :: PortGroup where
  "reset_PortGroup = \<lparr>DIR = 0, OUT = 0, IN = 0, PMUX = replicate 16 0, PINCFG = replicate 32 0\<rparr>"

definition reset_mcu :: mcu where
  "reset_mcu = \<lparr>PORT = [reset_PortGroup, reset_PortGroup], irq_on = True, trace = []\<rparr>"

text \<open>The machine after \<^verbatim>\<open>gpio_out_setup(5, 1)\<close> on the reset state.\<close>

definition pin5_mcu :: mcu where
  "pin5_mcu =
     \<lparr>PORT = [\<lparr>DIR = 0x20, OUT = 0x20, IN = 0, PMUX = replicate 16 0, PINCFG = replicate 32 0\<rparr>,
              reset_PortGroup],
      irq_on = True,
      trace = [(True, Irq_save), (False, Write_strobe 0 OUTSET 0x20),
               (False, Write_strobe 0 DIRSET 0x20), (False, Write_PINCFG 0 5 0),
               (False, Irq_restore)]\<rparr>"

section \<open>Basic facts about the model\<close>

lemma find_upt_first:
  assumes "P n" "\<forall>k<n. \<not> P k" "n < m"
  shows "find P [0..<m] = Some n"
  unfolding find_Some_iff using assms by (intro exI[of _ n]) simp

lemma ffs_push_bit: "n < 32 \<Longrightarrow> ffs (2 ^ n) = int n + 1"
proof -
  assume n: "n < 32"
  have b: "bit (2 ^ n :: u32) k \<longleftrightarrow> k = n" for k
    using n by (auto simp: bit_exp_iff)
  have "find (\<lambda>k. bit (2 ^ n :: u32) k) [0..<32] = Some n"
    by (rule find_upt_first) (use n in \<open>simp_all add: b\<close>)
  then show ?thesis by (simp add: ffs_def)
qed

lemma ffs_GPIO2BIT: "ffs (GPIO2BIT pin) = int (unat pin mod 32) + 1"
  by (simp add: GPIO2BIT_def ffs_push_bit)

lemma ffs_bounds:
  assumes "w \<noteq> 0"
  shows "1 \<le> ffs w \<and> ffs w \<le> 32"
proof -
  from assms obtain n where n: "bit w n"
    by (auto simp: bit_eq_iff)
  then have "n < 32"
    using bit_imp_le_length [of w n] by simp
  with n have "find (\<lambda>n. bit w n) [0..<32] \<noteq> None"
    by (auto simp: find_None_iff)
  then obtain k where k: "find (\<lambda>n. bit w n) [0..<32] = Some k"
    by auto
  then have "k < 32"
    by (auto simp: find_Some_iff)
  with k show ?thesis
    by (simp add: ffs_def)
qed

lemma Group_ok:
  "wf_mcu s \<Longrightarrow> 0 \<le> g \<Longrightarrow> g < 2 \<Longrightarrow> Group g s = Returns (PORT s ! nat g) s"
  by (simp add: Group_def wf_mcu_def in_range_def)

lemma wf_PortGroup_nth:
  "wf_mcu s \<Longrightarrow> 0 \<le> g \<Longrightarrow> g < 2 \<Longrightarrow> wf_PortGroup (PORT s ! nat g)"
  by (simp add: wf_mcu_def list_all_length)

lemma wf_log [simp]: "wf_mcu (log e s) = wf_mcu s"
  by (simp add: wf_mcu_def log_def)

lemma wf_irq_on_update [simp]: "wf_mcu (s\<lparr>irq_on := b\<rparr>) = wf_mcu s"
  by (simp add: wf_mcu_def)

lemma wf_set_Group:
  "wf_mcu s \<Longrightarrow> wf_PortGroup pg \<Longrightarrow> wf_mcu (set_Group g pg s)"
  by (auto simp: wf_mcu_def set_Group_def list_all_iff dest: set_update_subset_insert [THEN subsetD])

lemma wf_strobe_write [simp]: "wf_PortGroup (strobe_write r v pg) = wf_PortGroup pg"
  by (cases r) (simp_all add: wf_PortGroup_def)

lemma write_strobe_ok:
  assumes "wf_mcu s" "0 \<le> g" "g < 2"
  shows "write_strobe g r v s =
    Returns () (set_Group g (strobe_write r v (PORT s ! nat g)) (log (Write_strobe g r v) s))"
  using assms by (simp add: write_strobe_def bind_hw_def Group_ok)

lemma write_PINCFG_ok:
  assumes "wf_mcu s" "0 \<le> g" "g < 2" "0 \<le> i" "i < 32"
  shows "write_PINCFG g i v s =
    Returns () (set_Group g ((PORT s ! nat g)\<lparr>PINCFG := (PINCFG (PORT s ! nat g))[nat i := v]\<rparr>)
                  (log (Write_PINCFG g i v) s))"
  using assms wf_PortGroup_nth [OF assms(1-3)]
  by (simp add: write_PINCFG_def bind_hw_def Group_ok in_range_def wf_PortGroup_def)

lemma set_pincfg_ok:
  assumes "wf_mcu s" "0 \<le> g" "g < 2" "w \<noteq> 0"
  shows "set_pincfg g w v s =
    Returns () (set_Group g ((PORT s ! nat g)\<lparr>PINCFG := (PINCFG (PORT s ! nat g))[nat (ffs w - 1) := v]\<rparr>)
                  (log (Write_PINCFG g (ffs w - 1) v) s))"
  unfolding set_pincfg_def using assms ffs_bounds [OF assms(4)]
  by (intro write_PINCFG_ok) simp_all

lemma wf_PINCFG_update:
  "wf_PortGroup pg \<Longrightarrow> wf_PortGroup (pg\<lparr>PINCFG := (PINCFG pg)[i := v]\<rparr>)"
  by (simp add: wf_PortGroup_def)

lemma gpio_out_reset_ok:
  assumes "wf_mcu s" "0 \<le> out_regs g" "out_regs g < 2" "out_bit g \<noteq> 0"
  shows "\<exists>s'. gpio_out_reset g val s = Returns () s'
    \<and> PORT s' = (PORT s)[nat (out_regs g) := (PORT s ! nat (out_regs g))
          \<lparr>OUT := (if val \<noteq> 0 then OUT (PORT s ! nat (out_regs g)) OR out_bit g
                    else OUT (PORT s ! nat (out_regs g)) AND NOT (out_bit g)),
           DIR := DIR (PORT s ! nat (out_regs g)) OR out_bit g,
           PINCFG := (PINCFG (PORT s ! nat (out_regs g)))[nat (ffs (out_bit g) - 1) := 0]\<rparr>]
    \<and> trace s' = trace s @
          [(irq_on s, Irq_save),
           (False, Write_strobe (out_regs g) (if val \<noteq> 0 then OUTSET else OUTCLR) (out_bit g)),
           (False, Write_strobe (out_regs g) DIRSET (out_bit g)),
           (False, Write_PINCFG (out_regs g) (ffs (out_bit g) - 1) 0),
           (False, Irq_restore)]
    \<and> irq_on s' = irq_on s"
proof -
  let ?g = "out_regs g"
  let ?b = "out_bit g"
  let ?r = "if val \<noteq> 0 then OUTSET else OUTCLR"
  define s1 where "s1 = (log Irq_save s)\<lparr>irq_on := False\<rparr>"
  define s2 where "s2 = set_Group ?g (strobe_write ?r ?b (PORT s1 ! nat ?g)) (log (Write_strobe ?g ?r ?b) s1)"
  define s3 where "s3 = set_Group ?g (strobe_write DIRSET ?b (PORT s2 ! nat ?g)) (log (Write_strobe ?g DIRSET ?b) s2)"
  define s4 where "s4 = set_Group ?g ((PORT s3 ! nat ?g)\<lparr>PINCFG := (PINCFG (PORT s3 ! nat ?g))[nat (ffs ?b - 1) := 0]\<rparr>)
                  (log (Write_PINCFG ?g (ffs ?b - 1) 0) s3)"
  have wf1: "wf_mcu s1" using assms(1) by (simp add: s1_def)
  have wf2: "wf_mcu s2" unfolding s2_def
    using wf1 wf_PortGroup_nth [OF wf1 assms(2,3)]
    by (intro wf_set_Group) (simp_all del: strobe_write.simps)
  have wf3: "wf_mcu s3" unfolding s3_def
    using wf2 wf_PortGroup_nth [OF wf2 assms(2,3)]
    by (intro wf_set_Group) (simp_all del: strobe_write.simps)
  have e1: "irq_save s = Returns (irq_on s) s1" by (simp add: irq_save_def s1_def)
  have e2: "(if val \<noteq> 0 then write_strobe ?g OUTSET ?b else write_strobe ?g OUTCLR ?b) s1 = Returns () s2"
    using write_strobe_ok [OF wf1 assms(2,3)] by (simp add: s2_def)
  have e3: "write_strobe ?g DIRSET ?b s2 = Returns () s3"
    using write_strobe_ok [OF wf2 assms(2,3)] by (simp add: s3_def)
  have e4: "set_pincfg ?g ?b 0 s3 = Returns () s4"
    using set_pincfg_ok [OF wf3 assms(2,3,4)] by (simp add: s4_def)
  have run: "gpio_out_reset g val s = Returns () ((log Irq_restore s4)\<lparr>irq_on := irq_on s\<rparr>)"
    by (simp add: gpio_out_reset_def bind_hw_def e1 e2 e3 e4 irq_restore_def Let_def)
  have len: "nat ?g < length (PORT s)"
    using assms(1-3) by (simp add: wf_mcu_def)
  show ?thesis
    unfolding run using len
    by (simp add: s4_def s3_def s2_def s1_def log_def set_Group_def)
qed

lemma gpio_in_reset_ok:
  assumes "wf_mcu s" "0 \<le> in_regs g" "in_regs g < 2" "in_bit g \<noteq> 0"
  shows "\<exists>s'. gpio_in_reset g pull_up s = Returns () s'
    \<and> PORT s' = (PORT s)[nat (in_regs g) := (PORT s ! nat (in_regs g))
          \<lparr>PINCFG := (PINCFG (PORT s ! nat (in_regs g)))
                       [nat (ffs (in_bit g) - 1) := (if 0 <s pull_up then PORT_PINCFG_PULLEN else 0)],
           DIR := DIR (PORT s ! nat (in_regs g)) AND NOT (in_bit g)\<rparr>]
    \<and> trace s' = trace s @
          [(irq_on s, Irq_save),
           (False, Write_PINCFG (in_regs g) (ffs (in_bit g) - 1)
                     (if 0 <s pull_up then PORT_PINCFG_PULLEN else 0)),
           (False, Write_strobe (in_regs g) DIRCLR (in_bit g)),
           (False, Irq_restore)]
    \<and> irq_on s' = irq_on s"
proof -
  let ?g = "in_regs g"
  let ?b = "in_bit g"
  let ?c = "if 0 <s pull_up then PORT_PINCFG_PULLEN else 0"
  define s1 where "s1 = (log Irq_save s)\<lparr>irq_on := False\<rparr>"
  define s2 where "s2 = set_Group ?g ((PORT s1 ! nat ?g)\<lparr>PINCFG := (PINCFG (PORT s1 ! nat ?g))[nat (ffs ?b - 1) := ?c]\<rparr>)
                  (log (Write_PINCFG ?g (ffs ?b - 1) ?c) s1)"
  define s3 where "s3 = set_Group ?g (strobe_write DIRCLR ?b (PORT s2 ! nat ?g)) (log (Write_strobe ?g DIRCLR ?b) s2)"
  have wf1: "wf_mcu s1" using assms(1) by (simp add: s1_def)
  have wf2: "wf_mcu s2" unfolding s2_def
    using wf1 wf_PortGroup_nth [OF wf1 assms(2,3)]
    by (intro wf_set_Group wf_PINCFG_update) simp_all
  have e1: "irq_save s = Returns (irq_on s) s1" by (simp add: irq_save_def s1_def)
  have e2: "set_pincfg ?g ?b ?c s1 = Returns () s2"
    using set_pincfg_ok [OF wf1 assms(2,3,4)] by (simp add: s2_def)
  have e3: "write_strobe ?g DIRCLR ?b s2 = Returns () s3"
    using write_strobe_ok [OF wf2 assms(2,3)] by (simp add: s3_def)
  have run: "gpio_in_reset g pull_up s = Returns () ((log Irq_restore s3)\<lparr>irq_on := irq_on s\<rparr>)"
    by (simp add: gpio_in_reset_def bind_hw_def e1 e2 e3 irq_restore_def Let_def)
  have len: "nat ?g < length (PORT s)"
    using assms(1-3) by (simp add: wf_mcu_def)
  show ?thesis
    unfolding run using len
    by (simp add: s3_def s2_def s1_def log_def set_Group_def)
qed

subsection \<open>Pins and handles\<close>

lemma GPIO2PORT_eq: "GPIO2PORT pin = int (unat pin div 32)"
  unfolding GPIO2PORT_def uint_nat by (simp add: zdiv_int)

lemma GPIO2PORT_valid: "GPIO2PORT pin < NUM_PORT \<longleftrightarrow> unat pin < 64"
  by (simp add: GPIO2PORT_eq NUM_PORT_def div_less_iff_less_mult)

lemma GPIO2PORT_nonneg: "0 \<le> GPIO2PORT pin"
  by (simp add: GPIO2PORT_eq)

lemma nat_GPIO2PORT: "nat (GPIO2PORT pin) = unat pin div 32"
  by (simp add: GPIO2PORT_eq)

lemma ffs_zero: "ffs 0 = 0"
proof -
  have "find (\<lambda>n. bit (0 :: u32) n) [0..<32] = None"
    unfolding find_None_iff by simp
  then show ?thesis by (simp add: ffs_def)
qed

lemma GPIO2BIT_nonzero: "GPIO2BIT pin \<noteq> 0"
  using ffs_GPIO2BIT [of pin] ffs_zero by auto

subsection \<open>The setup functions\<close>

lemma gpio_out_setup_invalid:
  "NUM_PORT \<le> GPIO2PORT pin \<Longrightarrow> gpio_out_setup pin val s = Shutdown ''Not an output pin'' s"
  by (simp add: gpio_out_setup_def shutdown_def)

lemma gpio_in_setup_invalid:
  "NUM_PORT \<le> GPIO2PORT pin \<Longrightarrow> gpio_in_setup pin pull_up s = Shutdown ''Not an input pin'' s"
  by (simp add: gpio_in_setup_def shutdown_def)

lemma gpio_out_setup_valid:
  assumes "GPIO2PORT pin < NUM_PORT"
  shows "gpio_out_setup pin val s =
    bind_hw (gpio_out_reset \<lparr>out_regs = GPIO2PORT pin, out_bit = GPIO2BIT pin\<rparr> val)
      (\<lambda>_. return_hw \<lparr>out_regs = GPIO2PORT pin, out_bit = GPIO2BIT pin\<rparr>) s"
  using assms by (simp add: gpio_out_setup_def Let_def)

lemma gpio_in_setup_valid:
  assumes "GPIO2PORT pin < NUM_PORT"
  shows "gpio_in_setup pin pull_up s =
    bind_hw (gpio_in_reset \<lparr>in_regs = GPIO2PORT pin, in_bit = GPIO2BIT pin\<rparr> pull_up)
      (\<lambda>_. return_hw \<lparr>in_regs = GPIO2PORT pin, in_bit = GPIO2BIT pin\<rparr>) s"
  using assms by (simp add: gpio_in_setup_def Let_def)

lemma gpio_out_setup_handle:
  assumes "gpio_out_setup pin val s = Returns g s'"
  shows "g = \<lparr>out_regs = GPIO2PORT pin, out_bit = GPIO2BIT pin\<rparr> \<and> unat pin < 64"
proof (cases "GPIO2PORT pin < NUM_PORT")
  case True
  with assms show ?thesis
    by (auto simp: gpio_out_setup_valid bind_hw_def return_hw_def GPIO2PORT_valid
             split: outcome.splits)
next
  case False
  with assms show ?thesis
    by (simp add: gpio_out_setup_invalid)
qed

lemma gpio_out_setup_ok:
  assumes "wf_mcu s" "unat pin < 64"
  shows "\<exists>s'. gpio_out_setup pin val s = Returns \<lparr>out_regs = GPIO2PORT pin, out_bit = GPIO2BIT pin\<rparr> s'
     \<and> gpio_out_reset \<lparr>out_regs = GPIO2PORT pin, out_bit = GPIO2BIT pin\<rparr> val s = Returns () s'"
proof -
  let ?g = "\<lparr>out_regs = GPIO2PORT pin, out_bit = GPIO2BIT pin\<rparr>"
  have v: "GPIO2PORT pin < NUM_PORT"
    using assms(2) by (simp add: GPIO2PORT_valid)
  obtain s' where "gpio_out_reset ?g val s = Returns () s'"
    using gpio_out_reset_ok [of s ?g val] assms(1) v GPIO2PORT_nonneg [of pin] GPIO2BIT_nonzero [of pin]
    by (auto simp: NUM_PORT_def)
  then show ?thesis
    by (simp add: gpio_out_setup_valid [OF v] bind_hw_def return_hw_def)
qed

lemma gpio_in_setup_ok:
  assumes "wf_mcu s" "unat pin < 64"
  shows "\<exists>s'. gpio_in_setup pin pull_up s = Returns \<lparr>in_regs = GPIO2PORT pin, in_bit = GPIO2BIT pin\<rparr> s'
     \<and> gpio_in_reset \<lparr>in_regs = GPIO2PORT pin, in_bit = GPIO2BIT pin\<rparr> pull_up s = Returns () s'"
proof -
  let ?g = "\<lparr>in_regs = GPIO2PORT pin, in_bit = GPIO2BIT pin\<rparr>"
  have v: "GPIO2PORT pin < NUM_PORT"
    using assms(2) by (simp add: GPIO2PORT_valid)
  obtain s' where "gpio_in_reset ?g pull_up s = Returns () s'"
    using gpio_in_reset_ok [of s ?g pull_up] assms(1) v GPIO2PORT_nonneg [of pin] GPIO2BIT_nonzero [of pin]
    by (auto simp: NUM_PORT_def)
  then show ?thesis
    by (simp add: gpio_in_setup_valid [OF v] bind_hw_def return_hw_def)
qed

lemma wf_reset_mcu: "wf_mcu reset_mcu"
  by (simp add: wf_mcu_def reset_mcu_def wf_PortGroup_def reset_PortGroup_def)

section \<open>The setup functions and the shutdown path\<close>

text \<open>
  Claim C1. A pin number is invalid when its port index \<^verbatim>\<open>pin / 32\<close> is at least 2, that
  is, when the pin number is at least 64. For an invalid pin \<^verbatim>\<open>gpio_out_setup\<close> and
  \<^verbatim>\<open>gpio_in_setup\<close> return no handle: they call \<^verbatim>\<open>shutdown("Not an output pin")\<close> and
  \<^verbatim>\<open>shutdown("Not an input pin")\<close>. For every pin below 64 they return a handle and do
  not shut down.
\<close>

theorem gpio_setup_shutdown_iff_invalid_pin:
  assumes "wf_mcu s"
  shows "(GPIO2PORT pin \<ge> 2 \<longleftrightarrow> 64 \<le> unat pin)
    \<and> (64 \<le> unat pin \<longrightarrow>
          (\<exists>s'. gpio_out_setup pin val s = Shutdown ''Not an output pin'' s')
        \<and> (\<exists>s'. gpio_in_setup pin pull_up s = Shutdown ''Not an input pin'' s'))
    \<and> (unat pin < 64 \<longrightarrow>
          (\<exists>g s'. gpio_out_setup pin val s = Returns g s')
        \<and> (\<exists>g s'. gpio_in_setup pin pull_up s = Returns g s'))"
proof (intro conjI impI)
  show "GPIO2PORT pin \<ge> 2 \<longleftrightarrow> 64 \<le> unat pin"
    using GPIO2PORT_valid [of pin] by (auto simp: NUM_PORT_def)
next
  assume "64 \<le> unat pin"
  then have inv: "NUM_PORT \<le> GPIO2PORT pin"
    using GPIO2PORT_valid [of pin] by auto
  show "\<exists>s'. gpio_out_setup pin val s = Shutdown ''Not an output pin'' s'"
    using gpio_out_setup_invalid [OF inv] by blast
  show "\<exists>s'. gpio_in_setup pin pull_up s = Shutdown ''Not an input pin'' s'"
    using gpio_in_setup_invalid [OF inv] by blast
next
  assume v: "unat pin < 64"
  show "\<exists>g s'. gpio_out_setup pin val s = Returns g s'"
    using gpio_out_setup_ok [OF assms v] by blast
  show "\<exists>g s'. gpio_in_setup pin pull_up s = Returns g s'"
    using gpio_in_setup_ok [OF assms v] by blast
qed

theorem gpio_setup_shutdown_iff_invalid_pin_witness:
  "wf_mcu reset_mcu
   \<and> (\<exists>s'. gpio_out_setup 64 1 reset_mcu = Shutdown ''Not an output pin'' s')
   \<and> (\<exists>s'. gpio_in_setup 64 1 reset_mcu = Shutdown ''Not an input pin'' s')
   \<and> (\<exists>g s'. gpio_out_setup 63 1 reset_mcu = Returns g s')
   \<and> (\<exists>g s'. gpio_in_setup 63 1 reset_mcu = Returns g s')"
  using gpio_setup_shutdown_iff_invalid_pin [OF wf_reset_mcu, of 64 1 1]
        gpio_setup_shutdown_iff_invalid_pin [OF wf_reset_mcu, of 63 1 1]
  by (simp add: wf_reset_mcu)

text \<open>
  Claim C3. When \<^verbatim>\<open>gpio_out_setup\<close> or \<^verbatim>\<open>gpio_in_setup\<close> is called with an invalid pin
  (\<^verbatim>\<open>pin / 32 >= 2\<close>), the machine state at the call of \<^verbatim>\<open>shutdown\<close> is the state the
  function was entered with: no register has been written and no event has happened.
\<close>

theorem gpio_setup_invalid_pin_state_unchanged:
  assumes "GPIO2PORT pin \<ge> NUM_PORT"
  shows "(\<exists>msg. gpio_out_setup pin val s = Shutdown msg s)
       \<and> (\<exists>msg. gpio_in_setup pin pull_up s = Shutdown msg s)"
  using gpio_out_setup_invalid [OF assms] gpio_in_setup_invalid [OF assms] by simp

theorem gpio_setup_invalid_pin_state_unchanged_witness:
  "GPIO2PORT 200 \<ge> NUM_PORT
   \<and> (\<exists>msg. gpio_out_setup 200 1 reset_mcu = Shutdown msg reset_mcu)
   \<and> (\<exists>msg. gpio_in_setup 200 1 reset_mcu = Shutdown msg reset_mcu)"
proof -
  have h: "GPIO2PORT 200 \<ge> NUM_PORT"
    by (simp add: GPIO2PORT_def NUM_PORT_def)
  show ?thesis
    using h gpio_setup_invalid_pin_state_unchanged [OF h, of 1 reset_mcu 1] by simp
qed

section \<open>Array indices of the register block\<close>

lemma write_PINCFG_cases:
  assumes "wf_mcu s" "0 \<le> g" "g < 2"
  shows "write_PINCFG g i v s =
    (if 0 \<le> i \<and> i < 32
     then Returns () (set_Group g ((PORT s ! nat g)\<lparr>PINCFG := (PINCFG (PORT s ! nat g))[nat i := v]\<rparr>)
                  (log (Write_PINCFG g i v) s))
     else Undefined (PINCFG_index i))"
  using assms wf_PortGroup_nth [OF assms]
  by (auto simp: write_PINCFG_def bind_hw_def Group_ok in_range_def wf_PortGroup_def)

lemma read_PMUX_cases:
  assumes "wf_mcu s" "0 \<le> g" "g < 2"
  shows "read_PMUX g i s =
    (if 0 \<le> i \<and> i < 16
     then Returns (PMUX (PORT s ! nat g) ! nat i) (log (Read_PMUX g i) s)
     else Undefined (PMUX_index i))"
  using assms wf_PortGroup_nth [OF assms]
  by (auto simp: read_PMUX_def bind_hw_def Group_ok in_range_def wf_PortGroup_def)

lemma write_PMUX_cases:
  assumes "wf_mcu s" "0 \<le> g" "g < 2"
  shows "write_PMUX g i v s =
    (if 0 \<le> i \<and> i < 16
     then Returns () (set_Group g ((PORT s ! nat g)\<lparr>PMUX := (PMUX (PORT s ! nat g))[nat i := v]\<rparr>)
                  (log (Write_PMUX g i v) s))
     else Undefined (PMUX_index i))"
  using assms wf_PortGroup_nth [OF assms]
  by (auto simp: write_PMUX_def bind_hw_def Group_ok in_range_def wf_PortGroup_def)

lemma wf_PMUX_update:
  "wf_PortGroup pg \<Longrightarrow> wf_PortGroup (pg\<lparr>PMUX := (PMUX pg)[i := v]\<rparr>)"
  by (simp add: wf_PortGroup_def)

lemma uint_half_less_16: "uint (b div 2 :: u32) < 16 \<longleftrightarrow> unat b < 32"
proof -
  have "unat (b div 2) = unat b div 2"
    by (simp add: unat_div)
  then have "uint (b div 2) = int (unat b div 2)"
    by (simp add: uint_nat)
  then show ?thesis
    by (simp add: div_less_iff_less_mult)
qed

lemma uint_less_32: "uint (b :: u32) < 32 \<longleftrightarrow> unat b < 32"
  using uint_nat [of b] by arith

lemma gpio_peripheral_cases:
  assumes "wf_mcu s"
  shows "(unat bit_no < 32 \<longrightarrow> (\<exists>s'. gpio_peripheral bank bit_no ptype pull_up s = Returns () s'))
       \<and> (32 \<le> unat bit_no \<longrightarrow>
            gpio_peripheral bank bit_no ptype pull_up s =
              Undefined (if ptype \<noteq> 0 then PMUX_index (uint (bit_no div 2))
                         else PINCFG_index (uint bit_no)))"
proof -
  define g :: int where "g = (if bank = 0x41 then 0 else 1)"
  define c where "c = (if ptype \<noteq> 0 then PORT_PINCFG_PMUXEN else 0)
                       OR (if pull_up \<noteq> 0 then PORT_PINCFG_PULLEN else 0)"
  define F :: "u8 \<Rightarrow> u8" where "F = (\<lambda>pmux.
             let shift = (if bit_no AND 1 \<noteq> 0 then 4 else 0);
                 mask = NOT (push_bit shift 0xf)
             in (pmux AND mask) OR push_bit shift (ptype - 0x41))"
  let ?i = "uint (bit_no div 2)"
  have g: "0 \<le> g" "g < 2" by (simp_all add: g_def)
  have unfold: "gpio_peripheral bank bit_no ptype pull_up s =
      bind_hw (if ptype \<noteq> 0
               then bind_hw (read_PMUX g ?i) (\<lambda>pmux. write_PMUX g ?i (F pmux))
               else return_hw ())
        (\<lambda>_. write_PINCFG g (uint bit_no) c) s"
    unfolding gpio_peripheral_def g_def c_def F_def Let_def by (rule refl)
  show ?thesis
  proof (cases "ptype = 0")
    case True
    then have "gpio_peripheral bank bit_no ptype pull_up s = write_PINCFG g (uint bit_no) c s"
      unfolding unfold by (simp add: bind_hw_def return_hw_def)
    then show ?thesis
      using True by (auto simp: write_PINCFG_cases [OF assms g] uint_less_32)
  next
    case False
    show ?thesis
    proof (cases "unat bit_no < 32")
      case lt: True
      have i: "0 \<le> ?i \<and> ?i < 16"
        using lt by (simp add: uint_half_less_16)
      define x where "x = PMUX (PORT s ! nat g) ! nat ?i"
      define s1 where "s1 = log (Read_PMUX g ?i) s"
      define s2 where "s2 = set_Group g ((PORT s1 ! nat g)\<lparr>PMUX := (PMUX (PORT s1 ! nat g))[nat ?i := F x]\<rparr>)
                  (log (Write_PMUX g ?i (F x)) s1)"
      have wf1: "wf_mcu s1" using assms by (simp add: s1_def)
      have wf2: "wf_mcu s2" unfolding s2_def
        using wf1 wf_PortGroup_nth [OF wf1 g]
        by (intro wf_set_Group wf_PMUX_update) simp_all
      have r: "read_PMUX g ?i s = Returns x s1"
        using i by (simp add: read_PMUX_cases [OF assms g] s1_def x_def)
      have w: "write_PMUX g ?i (F x) s1 = Returns () s2"
        using i by (simp add: write_PMUX_cases [OF wf1 g] s2_def)
      obtain s3 where p: "write_PINCFG g (uint bit_no) c s2 = Returns () s3"
        using lt by (simp add: write_PINCFG_cases [OF wf2 g] uint_less_32)
      have "gpio_peripheral bank bit_no ptype pull_up s = Returns () s3"
        unfolding unfold using False by (simp add: bind_hw_def r w p)
      with lt show ?thesis by simp
    next
      case ge: False
      then have "\<not> (?i < 16)"
        by (simp add: uint_half_less_16)
      then have "read_PMUX g ?i s = Undefined (PMUX_index ?i)"
        by (simp add: read_PMUX_cases [OF assms g])
      then have "gpio_peripheral bank bit_no ptype pull_up s = Undefined (PMUX_index ?i)"
        unfolding unfold using False by (simp add: bind_hw_def)
      with ge False show ?thesis by simp
    qed
  qed
qed

text \<open>
  Claim C2, as stated: for all argument values of \<^verbatim>\<open>gpio_peripheral\<close>, \<^verbatim>\<open>gpio_out_setup\<close>
  and \<^verbatim>\<open>gpio_in_setup\<close>, each index into the Group, PMUX and PINCFG arrays is verified
  to be in range before the access. \<^verbatim>\<open>gpio_peripheral\<close> does not check its argument
  \<^verbatim>\<open>bit\<close>: called with bank \<^verbatim>\<open>'A'\<close>, bit 32, no peripheral type and no pull-up on a
  well-formed register block, it accesses \<^verbatim>\<open>PINCFG[32]\<close>, outside the array of 32 bytes.
\<close>

theorem gpio_peripheral_unchecked_index_counterexample:
  "wf_mcu reset_mcu \<and> gpio_peripheral 0x41 32 0 0 reset_mcu = Undefined (PINCFG_index 32)"
proof -
  have "gpio_peripheral 0x41 32 0 0 reset_mcu = Undefined (PINCFG_index 32)"
    by (simp add: gpio_peripheral_def bind_hw_def return_hw_def write_PINCFG_def Group_def
          in_range_def reset_mcu_def reset_PortGroup_def)
  then show ?thesis by (simp add: wf_reset_mcu)
qed

text \<open>
  Claim C2, amended. On a well-formed register block, \<^verbatim>\<open>gpio_out_setup\<close> and
  \<^verbatim>\<open>gpio_in_setup\<close> never index the Group or PINCFG arrays out of range, whatever their
  arguments: the Group index \<^verbatim>\<open>pin / 32\<close> is compared with \<^verbatim>\<open>NUM_PORT\<close> before the
  first access, and the PINCFG index \<^verbatim>\<open>ffs(bit) - 1\<close> lies between 0 and 31.
  \<^verbatim>\<open>gpio_peripheral\<close> performs no check: its Group index is 0 or 1 by construction,
  and its PMUX index \<^verbatim>\<open>bit / 2\<close> and PINCFG index \<^verbatim>\<open>bit\<close> are in range exactly when
  \<^verbatim>\<open>bit < 32\<close>; for \<^verbatim>\<open>bit >= 32\<close> it accesses an array out of range.
\<close>

theorem gpio_array_indices_in_range:
  assumes "wf_mcu s"
  shows "(\<forall>a. gpio_out_setup pin val s \<noteq> Undefined a)
       \<and> (\<forall>a. gpio_in_setup pin pull_up s \<noteq> Undefined a)
       \<and> (unat bit_no < 32 \<longrightarrow> (\<exists>s'. gpio_peripheral bank bit_no ptype pull s = Returns () s'))
       \<and> (32 \<le> unat bit_no \<longrightarrow> (\<exists>a. gpio_peripheral bank bit_no ptype pull s = Undefined a))"
proof (intro conjI)
  show "\<forall>a. gpio_out_setup pin val s \<noteq> Undefined a"
  proof (cases "unat pin < 64")
    case True
    then show ?thesis using gpio_out_setup_ok [OF assms True, of val] by auto
  next
    case False
    then have "NUM_PORT \<le> GPIO2PORT pin"
      using GPIO2PORT_valid [of pin] by auto
    then show ?thesis by (simp add: gpio_out_setup_invalid)
  qed
  show "\<forall>a. gpio_in_setup pin pull_up s \<noteq> Undefined a"
  proof (cases "unat pin < 64")
    case True
    then show ?thesis using gpio_in_setup_ok [OF assms True, of pull_up] by auto
  next
    case False
    then have "NUM_PORT \<le> GPIO2PORT pin"
      using GPIO2PORT_valid [of pin] by auto
    then show ?thesis by (simp add: gpio_in_setup_invalid)
  qed
  show "unat bit_no < 32 \<longrightarrow> (\<exists>s'. gpio_peripheral bank bit_no ptype pull s = Returns () s')"
    using gpio_peripheral_cases [OF assms, of bit_no bank ptype pull] by blast
  show "32 \<le> unat bit_no \<longrightarrow> (\<exists>a. gpio_peripheral bank bit_no ptype pull s = Undefined a)"
    using gpio_peripheral_cases [OF assms, of bit_no bank ptype pull] by blast
qed

theorem gpio_array_indices_in_range_witness:
  "wf_mcu reset_mcu
   \<and> (\<forall>a. gpio_out_setup 200 1 reset_mcu \<noteq> Undefined a)
   \<and> (\<forall>a. gpio_in_setup 63 1 reset_mcu \<noteq> Undefined a)
   \<and> (\<exists>s'. gpio_peripheral 0x42 31 0x43 1 reset_mcu = Returns () s')
   \<and> (\<exists>a. gpio_peripheral 0x42 32 0x43 1 reset_mcu = Undefined a)"
  using gpio_array_indices_in_range [OF wf_reset_mcu, where pin = 200 and val = 1
          and pull_up = 1 and bit_no = 31 and bank = "0x42" and ptype = "0x43" and pull = 1]
        gpio_array_indices_in_range [OF wf_reset_mcu, where pin = 63 and val = 1
          and pull_up = 1 and bit_no = 32 and bank = "0x42" and ptype = "0x43" and pull = 1]
  by (simp add: wf_reset_mcu)

section \<open>Writing and toggling an output pin\<close>

lemma bit_GPIO2BIT: "bit (GPIO2BIT pin) n \<longleftrightarrow> n = unat pin mod 32"
  by (auto simp: GPIO2BIT_def bit_exp_iff)

lemma bit_u32_less: "bit (w :: u32) n \<Longrightarrow> n < 32"
  using bit_imp_le_length [of w n] by simp

lemma pin_write_strobe:
  assumes "wf_mcu s" "unat pin < 64"
  shows "write_strobe (GPIO2PORT pin) r (GPIO2BIT pin) s =
           Returns () (s\<lparr>trace := trace s @ [(irq_on s, Write_strobe (GPIO2PORT pin) r (GPIO2BIT pin))],
                         PORT := (PORT s)[unat pin div 32 :=
                                   strobe_write r (GPIO2BIT pin) (PORT s ! (unat pin div 32))]\<rparr>)"
proof -
  have r: "0 \<le> GPIO2PORT pin" "GPIO2PORT pin < 2"
    using assms(2) GPIO2PORT_valid [of pin] GPIO2PORT_nonneg [of pin] by (simp_all add: NUM_PORT_def)
  show ?thesis
    unfolding write_strobe_ok [OF assms(1) r] set_Group_def log_def nat_GPIO2PORT by simp
qed

lemma pin_Group_length: "wf_mcu s \<Longrightarrow> unat pin < 64 \<Longrightarrow> unat pin div 32 < length (PORT s)"
  by (simp add: wf_mcu_def div_less_iff_less_mult)

subsection \<open>A concrete run: pin 5 set up as an output\<close>

lemma gpio_out_setup_pin5:
  "gpio_out_setup 5 1 reset_mcu = Returns \<lparr>out_regs = 0, out_bit = 0x20\<rparr> pin5_mcu"
  by code_simp

lemma wf_pin5_mcu: "wf_mcu pin5_mcu"
  by code_simp

text \<open>
  Claim C4. For every handle \<open>g\<close> returned by \<^verbatim>\<open>gpio_out_setup\<close> and every value \<open>val\<close>,
  \<^verbatim>\<open>gpio_out_write(g, val)\<close> makes exactly one register access: it writes \<open>g.bit\<close> to
  OUTSET when \<open>val\<close> is not zero and to OUTCLR when it is zero; afterwards the pin's
  output bit is 1 in the first case and 0 in the second.
\<close>

theorem gpio_out_write_drives_level:
  assumes "gpio_out_setup pin v0 s0 = Returns g s1" "wf_mcu s"
  shows "\<exists>s'. gpio_out_write g val s = Returns () s'
     \<and> trace s' = trace s @
          [(irq_on s, Write_strobe (out_regs g) (if val \<noteq> 0 then OUTSET else OUTCLR) (out_bit g))]
     \<and> (bit (OUT (PORT s' ! nat (out_regs g))) (unat pin mod 32) \<longleftrightarrow> val \<noteq> 0)"
proof -
  from gpio_out_setup_handle [OF assms(1)]
  have g: "g = \<lparr>out_regs = GPIO2PORT pin, out_bit = GPIO2BIT pin\<rparr>" and v: "unat pin < 64"
    by simp_all
  show ?thesis
    using pin_Group_length [OF assms(2) v]
    by (simp add: g gpio_out_write_def pin_write_strobe [OF assms(2) v] nat_GPIO2PORT
          bit_and_iff bit_not_iff bit_or_iff bit_GPIO2BIT)
qed

theorem gpio_out_write_drives_level_witness:
  "gpio_out_setup 5 1 reset_mcu = Returns \<lparr>out_regs = 0, out_bit = 0x20\<rparr> pin5_mcu
   \<and> wf_mcu pin5_mcu
   \<and> (\<exists>s'. gpio_out_write \<lparr>out_regs = 0, out_bit = 0x20\<rparr> 0 pin5_mcu = Returns () s'
         \<and> trace s' = trace pin5_mcu @ [(irq_on pin5_mcu, Write_strobe 0 OUTCLR 0x20)]
         \<and> \<not> bit (OUT (PORT s' ! 0)) 5)"
  using gpio_out_write_drives_level [OF gpio_out_setup_pin5 wf_pin5_mcu, of 0]
        gpio_out_setup_pin5 wf_pin5_mcu
  by simp

text \<open>
  Claim C5. For every handle \<open>g\<close> for pin \<open>p\<close>, \<^verbatim>\<open>gpio_out_write(g, val)\<close> and
  \<^verbatim>\<open>gpio_out_toggle(g)\<close> change at most bit \<open>p mod 32\<close> of the OUT register of bank
  \<open>p div 32\<close>: every other output bit of either bank, and the DIR, PINCFG and PMUX
  registers of both banks, are as before.
\<close>

theorem gpio_out_write_toggle_frame:
  assumes "gpio_out_setup pin v0 s0 = Returns g s1" "wf_mcu s"
  shows "(\<exists>s'. gpio_out_write g val s = Returns () s'
            \<and> map DIR (PORT s') = map DIR (PORT s)
            \<and> map PINCFG (PORT s') = map PINCFG (PORT s)
            \<and> map PMUX (PORT s') = map PMUX (PORT s)
            \<and> (\<forall>i n. (i \<noteq> unat pin div 32 \<or> n \<noteq> unat pin mod 32) \<longrightarrow>
                   bit (OUT (PORT s' ! i)) n = bit (OUT (PORT s ! i)) n))
       \<and> (\<exists>s'. gpio_out_toggle g s = Returns () s'
            \<and> map DIR (PORT s') = map DIR (PORT s)
            \<and> map PINCFG (PORT s') = map PINCFG (PORT s)
            \<and> map PMUX (PORT s') = map PMUX (PORT s)
            \<and> (\<forall>i n. (i \<noteq> unat pin div 32 \<or> n \<noteq> unat pin mod 32) \<longrightarrow>
                   bit (OUT (PORT s' ! i)) n = bit (OUT (PORT s ! i)) n))"
proof -
  from gpio_out_setup_handle [OF assms(1)]
  have g: "g = \<lparr>out_regs = GPIO2PORT pin, out_bit = GPIO2BIT pin\<rparr>" and v: "unat pin < 64"
    by simp_all
  have frame: "\<exists>s'. write_strobe (GPIO2PORT pin) r (GPIO2BIT pin) s = Returns () s'
            \<and> map DIR (PORT s') = map DIR (PORT s)
            \<and> map PINCFG (PORT s') = map PINCFG (PORT s)
            \<and> map PMUX (PORT s') = map PMUX (PORT s)
            \<and> (\<forall>i n. (i \<noteq> unat pin div 32 \<or> n \<noteq> unat pin mod 32) \<longrightarrow>
                   bit (OUT (PORT s' ! i)) n = bit (OUT (PORT s ! i)) n)"
    if "r = OUTSET \<or> r = OUTCLR \<or> r = OUTTGL" for r
    using that pin_Group_length [OF assms(2) v]
    by (auto simp: pin_write_strobe [OF assms(2) v] map_update list_update_same_conv nth_list_update
          bit_or_iff bit_and_iff bit_not_iff bit_xor_iff bit_GPIO2BIT dest: bit_u32_less)
  have w: "gpio_out_write g val s =
      write_strobe (GPIO2PORT pin) (if val \<noteq> 0 then OUTSET else OUTCLR) (GPIO2BIT pin) s"
    by (simp add: gpio_out_write_def g)
  have t: "gpio_out_toggle g s = write_strobe (GPIO2PORT pin) OUTTGL (GPIO2BIT pin) s"
    by (simp add: gpio_out_toggle_def gpio_out_toggle_noirq_def g)
  show ?thesis
    unfolding w t using frame [of "if val \<noteq> 0 then OUTSET else OUTCLR"] frame [of OUTTGL]
    by simp
qed

theorem gpio_out_write_toggle_frame_witness:
  "gpio_out_setup 5 1 reset_mcu = Returns \<lparr>out_regs = 0, out_bit = 0x20\<rparr> pin5_mcu
   \<and> wf_mcu pin5_mcu
   \<and> (\<exists>s'. gpio_out_write \<lparr>out_regs = 0, out_bit = 0x20\<rparr> 0 pin5_mcu = Returns () s'
         \<and> map DIR (PORT s') = map DIR (PORT pin5_mcu)
         \<and> map PINCFG (PORT s') = map PINCFG (PORT pin5_mcu)
         \<and> map PMUX (PORT s') = map PMUX (PORT pin5_mcu)
         \<and> (\<forall>i n. (i \<noteq> 0 \<or> n \<noteq> 5) \<longrightarrow>
                bit (OUT (PORT s' ! i)) n = bit (OUT (PORT pin5_mcu ! i)) n))
   \<and> (\<exists>s'. gpio_out_toggle \<lparr>out_regs = 0, out_bit = 0x20\<rparr> pin5_mcu = Returns () s'
         \<and> map DIR (PORT s') = map DIR (PORT pin5_mcu)
         \<and> map PINCFG (PORT s') = map PINCFG (PORT pin5_mcu)
         \<and> map PMUX (PORT s') = map PMUX (PORT pin5_mcu)
         \<and> (\<forall>i n. (i \<noteq> 0 \<or> n \<noteq> 5) \<longrightarrow>
                bit (OUT (PORT s' ! i)) n = bit (OUT (PORT pin5_mcu ! i)) n))"
  using gpio_out_write_toggle_frame [OF gpio_out_setup_pin5 wf_pin5_mcu, of 0]
        gpio_out_setup_pin5 wf_pin5_mcu
  by simp

text \<open>
  Claim C6. For every handle \<open>g\<close>, one call of \<^verbatim>\<open>gpio_out_toggle(g)\<close> inverts the pin's
  output bit, and a second call brings the register block back to the state before the
  first.
\<close>

theorem gpio_out_toggle_involution:
  assumes "gpio_out_setup pin v0 s0 = Returns g s1" "wf_mcu s"
  shows "\<exists>s' s''. gpio_out_toggle g s = Returns () s'
     \<and> gpio_out_toggle g s' = Returns () s''
     \<and> (bit (OUT (PORT s' ! nat (out_regs g))) (unat pin mod 32)
          \<longleftrightarrow> \<not> bit (OUT (PORT s ! nat (out_regs g))) (unat pin mod 32))
     \<and> PORT s'' = PORT s"
proof -
  from gpio_out_setup_handle [OF assms(1)]
  have g: "g = \<lparr>out_regs = GPIO2PORT pin, out_bit = GPIO2BIT pin\<rparr>" and v: "unat pin < 64"
    by simp_all
  define s' where "s' = s\<lparr>trace := trace s @ [(irq_on s, Write_strobe (GPIO2PORT pin) OUTTGL (GPIO2BIT pin))],
                         PORT := (PORT s)[unat pin div 32 :=
                                   strobe_write OUTTGL (GPIO2BIT pin) (PORT s ! (unat pin div 32))]\<rparr>"
  have len: "unat pin div 32 < length (PORT s)"
    by (rule pin_Group_length [OF assms(2) v])
  have wf': "wf_mcu s'"
    using assms(2) len by (auto simp: s'_def wf_mcu_def list_all_length nth_list_update wf_PortGroup_def)
  have t: "gpio_out_toggle g s = write_strobe (GPIO2PORT pin) OUTTGL (GPIO2BIT pin) s" for s
    by (simp add: gpio_out_toggle_def gpio_out_toggle_noirq_def g)
  have 1: "gpio_out_toggle g s = Returns () s'"
    by (simp add: t pin_write_strobe [OF assms(2) v] s'_def)
  have 2: "gpio_out_toggle g s' = Returns ()
      (s'\<lparr>trace := trace s' @ [(irq_on s', Write_strobe (GPIO2PORT pin) OUTTGL (GPIO2BIT pin))],
          PORT := (PORT s')[unat pin div 32 :=
                    strobe_write OUTTGL (GPIO2BIT pin) (PORT s' ! (unat pin div 32))]\<rparr>)"
    by (simp only: t pin_write_strobe [OF wf' v])
  have inv: "bit (OUT (PORT s' ! nat (out_regs g))) (unat pin mod 32)
          \<longleftrightarrow> \<not> bit (OUT (PORT s ! nat (out_regs g))) (unat pin mod 32)"
    using len by (simp add: g s'_def nat_GPIO2PORT bit_xor_iff bit_GPIO2BIT)
  have restored: "PORT (s'\<lparr>trace := trace s' @ [(irq_on s', Write_strobe (GPIO2PORT pin) OUTTGL (GPIO2BIT pin))],
          PORT := (PORT s')[unat pin div 32 :=
                    strobe_write OUTTGL (GPIO2BIT pin) (PORT s' ! (unat pin div 32))]\<rparr>) = PORT s"
    using len by (simp add: s'_def list_update_same_conv xor.assoc)
  show ?thesis
    using 1 2 inv restored by blast
qed

theorem gpio_out_toggle_involution_witness:
  "gpio_out_setup 5 1 reset_mcu = Returns \<lparr>out_regs = 0, out_bit = 0x20\<rparr> pin5_mcu
   \<and> wf_mcu pin5_mcu
   \<and> (\<exists>s' s''. gpio_out_toggle \<lparr>out_regs = 0, out_bit = 0x20\<rparr> pin5_mcu = Returns () s'
         \<and> gpio_out_toggle \<lparr>out_regs = 0, out_bit = 0x20\<rparr> s' = Returns () s''
         \<and> (bit (OUT (PORT s' ! 0)) 5 \<longleftrightarrow> \<not> bit (OUT (PORT pin5_mcu ! 0)) 5)
         \<and> PORT s'' = PORT pin5_mcu)"
  using gpio_out_toggle_involution [OF gpio_out_setup_pin5 wf_pin5_mcu]
        gpio_out_setup_pin5 wf_pin5_mcu
  by simp

section \<open>Interrupts during the reset of an output pin\<close>

text \<open>
  Claim C7. \<^verbatim>\<open>gpio_out_reset(g, val)\<close> calls \<^verbatim>\<open>irq_save\<close> before its first register
  write and \<^verbatim>\<open>irq_restore\<close> after its last: its events are, in this order,
  \<^verbatim>\<open>irq_save\<close>, the write of the output level (OUTSET or OUTCLR), the write of DIRSET,
  the write of 0 to the pin's PINCFG byte, and \<^verbatim>\<open>irq_restore\<close>. Each of the three register
  writes happens with interrupts disabled, and the interrupt state found at entry is the
  state at return.
\<close>

theorem gpio_out_reset_irq_bracket:
  assumes "wf_mcu s" "0 \<le> out_regs g" "out_regs g < 2" "out_bit g \<noteq> 0"
  shows "\<exists>s'. gpio_out_reset g val s = Returns () s'
     \<and> trace s' = trace s @
          [(irq_on s, Irq_save),
           (False, Write_strobe (out_regs g) (if val \<noteq> 0 then OUTSET else OUTCLR) (out_bit g)),
           (False, Write_strobe (out_regs g) DIRSET (out_bit g)),
           (False, Write_PINCFG (out_regs g) (ffs (out_bit g) - 1) 0),
           (False, Irq_restore)]
     \<and> irq_on s' = irq_on s"
  using gpio_out_reset_ok [OF assms, of val] by blast

theorem gpio_out_reset_irq_bracket_witness:
  "wf_mcu reset_mcu \<and> (0::int) \<le> 1 \<and> (1::int) < 2 \<and> (0x80000000 :: u32) \<noteq> 0
   \<and> (\<exists>s'. gpio_out_reset \<lparr>out_regs = 1, out_bit = 0x80000000\<rparr> 1 reset_mcu = Returns () s'
        \<and> trace s' =
             [(True, Irq_save),
              (False, Write_strobe 1 OUTSET 0x80000000),
              (False, Write_strobe 1 DIRSET 0x80000000),
              (False, Write_PINCFG 1 31 0),
              (False, Irq_restore)]
        \<and> irq_on s' = True)"
proof -
  have f: "ffs 0x80000000 = 32"
    by code_simp
  have r: "trace reset_mcu = []" "irq_on reset_mcu = True"
    by (simp_all add: reset_mcu_def)
  show ?thesis
    using gpio_out_reset_irq_bracket [of reset_mcu "\<lparr>out_regs = 1, out_bit = 0x80000000\<rparr>" 1]
    by (simp add: wf_reset_mcu f r)
qed

section \<open>Pull resistor of an input pin\<close>

text \<open>
  Claim C8. For every valid pin, \<^verbatim>\<open>gpio_in_setup(pin, pull_up)\<close> returns a handle, clears
  the pin's direction bit (the pin is an input) and writes the pin's PINCFG byte once:
  0 when \<open>pull_up\<close>, read as a signed byte, is zero or negative, and
  \<^verbatim>\<open>PORT_PINCFG_PULLEN\<close> when it is positive. So the pull enable bit of the pin is set
  exactly when \<open>pull_up > 0\<close>; a negative \<open>pull_up\<close> gives no pull.
\<close>

theorem gpio_in_setup_pull_only_if_positive:
  assumes "wf_mcu s" "unat pin < 64"
  shows "\<exists>g s'. gpio_in_setup pin pull_up s = Returns g s'
     \<and> trace s' = trace s @
          [(irq_on s, Irq_save),
           (False, Write_PINCFG (GPIO2PORT pin) (int (unat pin mod 32))
                     (if 0 < sint pull_up then PORT_PINCFG_PULLEN else 0)),
           (False, Write_strobe (GPIO2PORT pin) DIRCLR (GPIO2BIT pin)),
           (False, Irq_restore)]
     \<and> PINCFG (PORT s' ! (unat pin div 32)) ! (unat pin mod 32) =
           (if 0 < sint pull_up then PORT_PINCFG_PULLEN else 0)
     \<and> (bit (PINCFG (PORT s' ! (unat pin div 32)) ! (unat pin mod 32)) 2 \<longleftrightarrow> 0 < sint pull_up)
     \<and> \<not> bit (DIR (PORT s' ! (unat pin div 32))) (unat pin mod 32)"
proof -
  let ?g = "\<lparr>in_regs = GPIO2PORT pin, in_bit = GPIO2BIT pin\<rparr>"
  have r: "0 \<le> in_regs ?g" "in_regs ?g < 2" "in_bit ?g \<noteq> 0"
    using assms(2) GPIO2PORT_valid [of pin] GPIO2PORT_nonneg [of pin] GPIO2BIT_nonzero [of pin]
    by (simp_all add: NUM_PORT_def)
  from gpio_in_reset_ok [OF assms(1) r, of pull_up]
  obtain s' where run: "gpio_in_reset ?g pull_up s = Returns () s'"
    and port: "PORT s' = (PORT s)[nat (in_regs ?g) := (PORT s ! nat (in_regs ?g))
          \<lparr>PINCFG := (PINCFG (PORT s ! nat (in_regs ?g)))
                       [nat (ffs (in_bit ?g) - 1) := (if 0 <s pull_up then PORT_PINCFG_PULLEN else 0)],
           DIR := DIR (PORT s ! nat (in_regs ?g)) AND NOT (in_bit ?g)\<rparr>]"
    and tr: "trace s' = trace s @
          [(irq_on s, Irq_save),
           (False, Write_PINCFG (in_regs ?g) (ffs (in_bit ?g) - 1)
                     (if 0 <s pull_up then PORT_PINCFG_PULLEN else 0)),
           (False, Write_strobe (in_regs ?g) DIRCLR (in_bit ?g)),
           (False, Irq_restore)]"
    by blast
  have s: "0 <s pull_up \<longleftrightarrow> 0 < sint pull_up"
    by (simp add: word_sless_alt)
  have len: "unat pin div 32 < length (PORT s)"
    by (rule pin_Group_length [OF assms])
  have plen: "unat pin mod 32 < length (PINCFG (PORT s ! (unat pin div 32)))"
    using wf_PortGroup_nth [OF assms(1) r(1,2)] by (simp add: wf_PortGroup_def nat_GPIO2PORT)
  have ret: "gpio_in_setup pin pull_up s = Returns ?g s'"
    using assms(2) run
    by (simp add: gpio_in_setup_valid GPIO2PORT_valid bind_hw_def return_hw_def)
  have 1: "trace s' = trace s @
          [(irq_on s, Irq_save),
           (False, Write_PINCFG (GPIO2PORT pin) (int (unat pin mod 32))
                     (if 0 < sint pull_up then PORT_PINCFG_PULLEN else 0)),
           (False, Write_strobe (GPIO2PORT pin) DIRCLR (GPIO2BIT pin)),
           (False, Irq_restore)]"
    using tr by (simp add: s ffs_GPIO2BIT)
  have 2: "PINCFG (PORT s' ! (unat pin div 32)) ! (unat pin mod 32) =
           (if 0 < sint pull_up then PORT_PINCFG_PULLEN else 0)"
    using len plen by (simp add: port s ffs_GPIO2BIT nat_GPIO2PORT)
  have 3: "bit (PINCFG (PORT s' ! (unat pin div 32)) ! (unat pin mod 32)) 2 \<longleftrightarrow> 0 < sint pull_up"
    unfolding 2 by (simp add: PORT_PINCFG_PULLEN_def)
  have 4: "\<not> bit (DIR (PORT s' ! (unat pin div 32))) (unat pin mod 32)"
    using len by (simp add: port nat_GPIO2PORT bit_and_iff bit_not_iff bit_GPIO2BIT)
  show ?thesis
    using ret 1 2 3 4 by blast
qed

theorem gpio_in_setup_pull_only_if_positive_witness:
  "wf_mcu reset_mcu \<and> unat (33 :: u8) < 64
   \<and> (\<exists>g s'. gpio_in_setup 33 0xFF reset_mcu = Returns g s'
        \<and> trace s' =
             [(True, Irq_save),
              (False, Write_PINCFG 1 1 0),
              (False, Write_strobe 1 DIRCLR 2),
              (False, Irq_restore)]
        \<and> PINCFG (PORT s' ! 1) ! 1 = 0
        \<and> \<not> bit (PINCFG (PORT s' ! 1) ! 1) 2
        \<and> \<not> bit (DIR (PORT s' ! 1)) 1)
   \<and> (\<exists>g s'. gpio_in_setup 33 1 reset_mcu = Returns g s'
        \<and> trace s' =
             [(True, Irq_save),
              (False, Write_PINCFG 1 1 PORT_PINCFG_PULLEN),
              (False, Write_strobe 1 DIRCLR 2),
              (False, Irq_restore)]
        \<and> PINCFG (PORT s' ! 1) ! 1 = PORT_PINCFG_PULLEN
        \<and> bit (PINCFG (PORT s' ! 1) ! 1) 2
        \<and> \<not> bit (DIR (PORT s' ! 1)) 1)"
proof -
  have r: "trace reset_mcu = []" "irq_on reset_mcu = True"
    by (simp_all add: reset_mcu_def)
  show ?thesis
    using gpio_in_setup_pull_only_if_positive [of reset_mcu 33 "0xFF"]
          gpio_in_setup_pull_only_if_positive [of reset_mcu 33 1]
    by (simp add: wf_reset_mcu GPIO2PORT_def GPIO2BIT_def r)
qed

end
